theory Spec2Isabelle
  imports Main "HOL-Library.AList"
begin

section \<open>Python values used by the script\<close>

text \<open>
  A Python \<open>dict\<close> keeps its keys in insertion order, and an assignment to a key that is
  already there replaces the value in place: this is \<open>AList.update\<close> on an association
  list. \<open>d.get(k)\<close> is \<open>map_of d k\<close>. A value that may be Python's \<open>None\<close> (JSON
  \<open>null\<close>) is a \<open>string option\<close>.
\<close>

type_synonym pdict = "(string \<times> string option) list"

text \<open>\<open>str(x)\<close>, and the interpolation of \<open>x\<close> in an f-string, for a value that may be \<open>None\<close>.\<close>

definition py_str :: "string option \<Rightarrow> string" where
  "py_str v = (case v of None \<Rightarrow> ''None'' | Some x \<Rightarrow> x)"

text \<open>\<open>d.update(other)\<close>: every item of \<open>other\<close> is assigned in turn.\<close>

definition dict_update :: "('k \<times> 'v) list \<Rightarrow> ('k \<times> 'v) list \<Rightarrow> ('k \<times> 'v) list" where
  "dict_update d other = fold (\<lambda>kv. AList.update (fst kv) (snd kv)) other d"

text \<open>\<open>dict(pairs)\<close>: the pairs are assigned in turn into an empty dictionary.\<close>

definition dict_of :: "('k \<times> 'v) list \<Rightarrow> ('k \<times> 'v) list" where
  "dict_of pairs = dict_update [] pairs"

section \<open>Configuration loading (\<open>PersistentState.__init__\<close>, lines 94 to 108)\<close>

text \<open>
  \<open>read_file_int\<close> opens one configuration file and merges the parsed JSON object into
  \<open>self.config\<close>. The file's content is \<open>None\<close> when the file is missing
  (\<open>FileNotFoundError\<close>) or is not JSON (\<open>JSONDecodeError\<close>): both are swallowed and the
  configuration is left as it was.
\<close>

definition read_file_int :: "(string \<times> 'v) list option \<Rightarrow> (string \<times> 'v) list \<Rightarrow> (string \<times> 'v) list" where
  "read_file_int content cfg = (case content of None \<Rightarrow> cfg | Some obj \<Rightarrow> dict_update cfg obj)"

text \<open>
  The two calls of \<open>read_file_int\<close>, on \<open>etc/mender/mender.conf\<close> first and on
  \<open>var/lib/mender/mender.conf\<close> second, starting from \<open>self.config = {}\<close>.
\<close>

definition load_config :: "(string \<times> 'v) list option \<Rightarrow> (string \<times> 'v) list option \<Rightarrow> (string \<times> 'v) list" where
  "load_config client_conf device_conf = read_file_int device_conf (read_file_int client_conf [])"

definition ROOTFS_A_KEY :: string where "ROOTFS_A_KEY = ''RootfsPartA''"
definition ROOTFS_B_KEY :: string where "ROOTFS_B_KEY = ''RootfsPartB''"
definition PART_NUMBER_A_KEY :: string where "PART_NUMBER_A_KEY = ''PartitionNumberA''"
definition PART_NUMBER_B_KEY :: string where "PART_NUMBER_B_KEY = ''PartitionNumberB''"
definition SET_CMD_KEY :: string where "SET_CMD_KEY = ''SetCmd''"
definition PRINT_CMD_KEY :: string where "PRINT_CMD_KEY = ''PrintCmd''"
definition EXPECTED_ROOT_KEY :: string where "EXPECTED_ROOT_KEY = ''ExpectedRoot''"
definition VALIDATION_STEP_KEY :: string where "VALIDATION_STEP_KEY = ''step''"

definition STEP_NONE :: string where "STEP_NONE = ''none''"
definition STEP_INIT :: string where "STEP_INIT = ''init''"
definition STEP_TEST_SWITCH :: string where "STEP_TEST_SWITCH = ''test_switch''"
definition STEP_TEST_UPDATE :: string where "STEP_TEST_UPDATE = ''test_update''"
definition STEP_TEST_ROLLBACK :: string where "STEP_TEST_ROLLBACK = ''test_rollback''"
definition STEP_END :: string where "STEP_END = ''end''"

lemmas key_defs = ROOTFS_A_KEY_def ROOTFS_B_KEY_def PART_NUMBER_A_KEY_def PART_NUMBER_B_KEY_def
  SET_CMD_KEY_def PRINT_CMD_KEY_def EXPECTED_ROOT_KEY_def VALIDATION_STEP_KEY_def

lemmas step_defs = STEP_NONE_def STEP_INIT_def STEP_TEST_SWITCH_def STEP_TEST_UPDATE_def
  STEP_TEST_ROLLBACK_def STEP_END_def

section \<open>The process and what it acts on\<close>

text \<open>
  Everything outside the script is a world of type \<open>'w\<close>, reached through three
  operations: \<open>proc\<close> is \<open>subprocess.run(cmd, stdout=PIPE)\<close>, which either raises or
  completes with a return code and the decoded standard output (a decoding error is a
  raise, the script catches both alike); \<open>rename_dir\<close> is \<open>os.rename\<close> inside its
  \<open>try\<close>, \<open>False\<close> when it raises; \<open>os_release\<close> tells whether \<open>/etc/os-release\<close> can be
  opened and read. An element of a command may be \<open>None\<close>, as the script builds commands
  from values of the state dictionary.
\<close>

datatype proc_result = Raised | Completed int string

record 'w os =
  proc :: "string option list \<Rightarrow> 'w \<Rightarrow> proc_result \<times> 'w"
  rename_dir :: "string \<Rightarrow> string \<Rightarrow> 'w \<Rightarrow> bool \<times> 'w"
  os_release :: "'w \<Rightarrow> bool"

text \<open>
  The effects of one run, in the order they happen: a command handed to
  \<open>subprocess.run\<close>, an \<open>os.rename\<close>, the \<open>os.remove\<close> of the state file, and the log
  lines that carry a failure reason or the final verdict (the other, informational log
  lines are left out).
\<close>

datatype event = Exec "string option list" | Rename string string | Remove | Log string

datatype error = KeyError | UnknownStep | TypeError | OSError | SystemExit

text \<open>
  The script's data: \<open>state\<close> is \<open>self.state\<close>, \<open>state_file\<close> the content of the state file
  (\<open>None\<close> when there is no file), \<open>config\<close> is \<open>self.config\<close>, and \<open>keep_going\<close>,
  \<open>fail_reason\<close>, \<open>current_root\<close> and \<open>s_step\<close> (the variable \<open>s\<close>) are the module's
  variables.
\<close>

record 'w machine =
  state :: pdict
  state_file :: "pdict option"
  config :: "(string \<times> string) list"
  world :: 'w
  trace :: "event list"
  keep_going :: bool
  fail_reason :: "string option"
  current_root :: string
  s_step :: "string option"

definition subprocess_run :: "'w os \<Rightarrow> string option list \<Rightarrow> 'w machine \<Rightarrow> proc_result \<times> 'w machine" where
  "subprocess_run os cmd r =
     (case proc os cmd (world r) of
        (res, w') \<Rightarrow> (res, r\<lparr>world := w', trace := trace r @ [Exec cmd]\<rparr>))"

definition check_for_command :: "'w os \<Rightarrow> string \<Rightarrow> 'w machine \<Rightarrow> bool \<times> 'w machine" where
  "check_for_command os cmd r =
     (case subprocess_run os [Some ''which'', Some cmd] r of
        (Completed rc out, r') \<Rightarrow> (rc = 0, r')
      | (Raised, r') \<Rightarrow> (False, r'))"

definition run_command :: "'w os \<Rightarrow> string option list \<Rightarrow> 'w machine \<Rightarrow> bool \<times> 'w machine" where
  "run_command os cmd r =
     (case subprocess_run os cmd r of
        (Completed rc out, r') \<Rightarrow> (rc = 0, r')
      | (Raised, r') \<Rightarrow> (False, r'))"

section \<open>Whitespace, \<open>strip\<close> and the regular expressions\<close>

text \<open>
  The characters below 256 that Python's \<open>str.strip\<close> removes and that \<open>\s\<close> matches:
  tab, line feed, vertical tab, form feed, carriage return, the four separators
  \<open>0x1c\<close> to \<open>0x1f\<close>, space, \<open>0x85\<close> and \<open>0xa0\<close>.
\<close>

definition is_space :: "char \<Rightarrow> bool" where
  "is_space c = (of_char c \<in> {9, 10, 11, 12, 13, 28, 29, 30, 31, 32, 133, 160 :: nat})"

definition newline :: char where
  "newline = CHR 0x0A"

definition lstrip :: "string \<Rightarrow> string" where
  "lstrip v = dropWhile is_space v"

definition rstrip :: "string \<Rightarrow> string" where
  "rstrip v = rev (dropWhile is_space (rev v))"

definition strip :: "string \<Rightarrow> string" where
  "strip v = rstrip (lstrip v)"

definition run_command_get_output :: "'w os \<Rightarrow> string option list \<Rightarrow> 'w machine \<Rightarrow> string option \<times> 'w machine" where
  "run_command_get_output os cmd r =
     (case subprocess_run os cmd r of
        (Completed rc out, r') \<Rightarrow> (if rc = 0 then Some (strip out) else None, r')
      | (Raised, r') \<Rightarrow> (None, r'))"

definition reboot :: "'w os \<Rightarrow> 'w machine \<Rightarrow> 'w machine" where
  "reboot os r = snd (run_command os [Some ''reboot''] r)"

text \<open>
  \<open>re.findall(r"^\s*(.*?)\s*=\s*(.*?)\s*$", value)\<close>. The pattern is compiled without
  \<open>re.MULTILINE\<close>, so \<open>^\<close> matches at the start of the string only and there is at most
  one match, which runs to the end of the string. After the leading whitespace, the
  first group is the shortest text without a line feed that is followed by whitespace
  and an \<open>=\<close> such that the rest, stripped, has no line feed either; the second group is
  that stripped rest. \<open>split_eq pre rest\<close> walks over the candidates for the \<open>=\<close> from
  left to right, \<open>pre\<close> being the text already passed.
\<close>

fun split_eq :: "string \<Rightarrow> string \<Rightarrow> (string \<times> string) option" where
  "split_eq pre [] = None"
| "split_eq pre (c # cs) =
     (if c = CHR ''='' \<and> newline \<notin> set (rstrip pre) \<and> newline \<notin> set (strip cs)
      then Some (rstrip pre, strip cs)
      else split_eq (pre @ [c]) cs)"

definition findall_env :: "string \<Rightarrow> (string \<times> string) list" where
  "findall_env v = (case split_eq [] (lstrip v) of None \<Rightarrow> [] | Some kv \<Rightarrow> [kv])"

text \<open>
  \<open>extract_part_number\<close>: \<open>re.search(r'\d+$', part)\<close> returns the digits at the end of
  the string (\<open>$\<close> also matches before one final line feed), \<open>None\<close> when there are none.
\<close>

definition is_digit :: "char \<Rightarrow> bool" where
  "is_digit c = (48 \<le> (of_char c :: nat) \<and> (of_char c :: nat) \<le> 57)"

definition extract_part_number :: "string \<Rightarrow> string option" where
  "extract_part_number part =
     (let body = (if part \<noteq> [] \<and> last part = newline then butlast part else part);
          digits = rev (takeWhile is_digit (rev body))
      in if digits = [] then None else Some digits)"

section \<open>The class \<open>PersistentState\<close>\<close>

text \<open>\<open>_load_state\<close>: the content of the state file, or \<open>{}\<close> when there is none.\<close>

definition load_state :: "pdict option \<Rightarrow> pdict" where
  "load_state f = (case f of None \<Rightarrow> [] | Some d \<Rightarrow> d)"

text \<open>\<open>_save_state\<close> writes the whole dictionary; \<open>_set_state\<close> assigns one key and saves.\<close>

definition save_state :: "'w machine \<Rightarrow> 'w machine" where
  "save_state r = r\<lparr>state_file := Some (state r)\<rparr>"

definition set_state :: "string \<Rightarrow> string option \<Rightarrow> 'w machine \<Rightarrow> 'w machine" where
  "set_state key v r = save_state (r\<lparr>state := AList.update key v (state r)\<rparr>)"

text \<open>\<open>_get_state\<close> is \<open>self.state.get(key)\<close>: \<open>None\<close> for a missing key and for a stored \<open>null\<close>.\<close>

definition get_state :: "string \<Rightarrow> 'w machine \<Rightarrow> string option" where
  "get_state key r = (case map_of (state r) key of None \<Rightarrow> None | Some v \<Rightarrow> v)"

definition get_root_part_device_a :: "'w machine \<Rightarrow> string option" where
  "get_root_part_device_a r = get_state ROOTFS_A_KEY r"

definition get_root_part_device_b :: "'w machine \<Rightarrow> string option" where
  "get_root_part_device_b r = get_state ROOTFS_B_KEY r"

definition get_root_part_number_a :: "'w machine \<Rightarrow> string option" where
  "get_root_part_number_a r = get_state PART_NUMBER_A_KEY r"

definition get_root_part_number_b :: "'w machine \<Rightarrow> string option" where
  "get_root_part_number_b r = get_state PART_NUMBER_B_KEY r"

definition get_env_set_cmd :: "'w machine \<Rightarrow> string option" where
  "get_env_set_cmd r = get_state SET_CMD_KEY r"

definition get_env_print_cmd :: "'w machine \<Rightarrow> string option" where
  "get_env_print_cmd r = get_state PRINT_CMD_KEY r"

definition get_step :: "'w machine \<Rightarrow> string option" where
  "get_step r = get_state VALIDATION_STEP_KEY r"

definition get_expected_root :: "'w machine \<Rightarrow> string option" where
  "get_expected_root r = get_state EXPECTED_ROOT_KEY r"

definition set_expected_root :: "string option \<Rightarrow> 'w machine \<Rightarrow> 'w machine" where
  "set_expected_root v r = set_state EXPECTED_ROOT_KEY v r"

definition set_step :: "string \<Rightarrow> 'w machine \<Rightarrow> 'w machine" where
  "set_step step r = set_state VALIDATION_STEP_KEY (Some step) r"

text \<open>
  \<open>next_step\<close>: the chain of comparisons of the source, in its order. The result is the
  value the method returns (a second \<open>get_step\<close>) with the machine, or the exception.
\<close>

definition next_step :: "'w machine \<Rightarrow> error + (string option \<times> 'w machine)" where
  "next_step r =
     (let s = get_step r in
      if s = Some STEP_NONE then (let r' = set_step STEP_INIT r in Inr (get_step r', r'))
      else if s = Some STEP_INIT then (let r' = set_step STEP_TEST_SWITCH r in Inr (get_step r', r'))
      else if s = Some STEP_TEST_SWITCH then (let r' = set_step STEP_TEST_UPDATE r in Inr (get_step r', r'))
      else if s = Some STEP_TEST_UPDATE then (let r' = set_step STEP_TEST_ROLLBACK r in Inr (get_step r', r'))
      else if s = Some STEP_TEST_ROLLBACK then (let r' = set_step STEP_END r in Inr (get_step r', r'))
      else if s = Some STEP_END then Inr (get_step r, r)
      else Inl UnknownStep)"

text \<open>\<open>clean\<close>: \<open>os.remove\<close> raises when there is no file.\<close>

definition clean :: "'w machine \<Rightarrow> error + 'w machine" where
  "clean r = (if state_file r = None then Inl OSError
              else Inr (r\<lparr>state_file := None, trace := trace r @ [Remove]\<rparr>))"

text \<open>
  \<open>create_initial_state\<close>. The two device paths come from \<open>self.config.get\<close>;
  \<open>re.search\<close> on \<open>None\<close> raises \<open>TypeError\<close>, before anything is saved.
\<close>

definition create_initial_state :: "'w os \<Rightarrow> 'w machine \<Rightarrow> error + 'w machine" where
  "create_initial_state os r =
     (let rfs_a = map_of (config r) ROOTFS_A_KEY;
          rfs_b = map_of (config r) ROOTFS_B_KEY
      in case check_for_command os ''fw_printenv'' r of
        (uboot, r1) \<Rightarrow>
          (let set_cmd = (if uboot then ''fw_setenv'' else ''grub-mender-grubenv-set'');
               print_cmd = (if uboot then ''fw_printenv'' else ''grub-mender-grubenv-print'')
           in case rfs_a of None \<Rightarrow> Inl TypeError | Some a \<Rightarrow>
              (case rfs_b of None \<Rightarrow> Inl TypeError | Some b \<Rightarrow>
                 (let r2 = set_state SET_CMD_KEY (Some set_cmd) r1;
                      r3 = set_state PRINT_CMD_KEY (Some print_cmd) r2;
                      r4 = set_state ROOTFS_A_KEY (Some a) r3;
                      r5 = set_state ROOTFS_B_KEY (Some b) r4;
                      r6 = set_state PART_NUMBER_A_KEY (extract_part_number a) r5;
                      r7 = set_state PART_NUMBER_B_KEY (extract_part_number b) r6
                  in Inr (set_step STEP_NONE r7)))))"

section \<open>Root partition and bootloader helpers\<close>

definition root_path :: string where "root_path = ''/''"

definition CURRENT_ROOT_A :: string where "CURRENT_ROOT_A = ''root_a''"
definition CURRENT_ROOT_B :: string where "CURRENT_ROOT_B = ''root_b''"
definition CURRENT_ROOT_UNDEFINED :: string where "CURRENT_ROOT_UNDEFINED = ''root_undefined''"

lemmas root_defs = CURRENT_ROOT_A_def CURRENT_ROOT_B_def CURRENT_ROOT_UNDEFINED_def

text \<open>
  \<open>identify_mounted_root\<close>: three probes with \<open>stat\<close>, then the two comparisons. Each probe
  gives \<open>None\<close> when the command fails, and the comparisons are Python's \<open>==\<close> on values
  that may be \<open>None\<close>.
\<close>

definition identify_mounted_root :: "'w os \<Rightarrow> 'w machine \<Rightarrow> string \<times> 'w machine" where
  "identify_mounted_root os r =
     (case run_command_get_output os [Some ''stat'', Some ''-c'', Some ''%D'', Some root_path] r of
        (root, r1) \<Rightarrow>
     (case run_command_get_output os
             [Some ''stat'', Some ''-c'', Some ''%t%02T'', get_root_part_device_a r1] r1 of
        (a, r2) \<Rightarrow>
     (case run_command_get_output os
             [Some ''stat'', Some ''-c'', Some ''%t%02T'', get_root_part_device_b r2] r2 of
        (b, r3) \<Rightarrow>
       (if root = a then CURRENT_ROOT_A
        else if root = b then CURRENT_ROOT_B
        else CURRENT_ROOT_UNDEFINED, r3))))"

definition set_env_variable :: "'w os \<Rightarrow> string \<Rightarrow> string \<Rightarrow> 'w machine \<Rightarrow> bool \<times> 'w machine" where
  "set_env_variable os variable_name v r =
     run_command os [get_env_set_cmd r, Some variable_name, Some v] r"

text \<open>
  \<open>assert_env_variable\<close>. \<open>vdict[variable_name]\<close> is a subscription: it raises
  \<open>KeyError\<close> when the name is not a key of \<open>vdict\<close>. The values of \<open>vdict\<close> are strings,
  so the test \<open>is None\<close> that follows is never true.
\<close>

definition assert_env_variable :: "'w os \<Rightarrow> string \<Rightarrow> string \<Rightarrow> 'w machine \<Rightarrow> error + (bool \<times> 'w machine)" where
  "assert_env_variable os variable_name expect r =
     (case run_command_get_output os [get_env_print_cmd r, Some variable_name] r of
        (None, r') \<Rightarrow> Inr (False, r')
      | (Some v, r') \<Rightarrow>
          (case map_of (dict_of (findall_env v)) variable_name of
             None \<Rightarrow> Inl KeyError
           | Some x \<Rightarrow> Inr (x = expect, r')))"

definition ENV_KEY_BOOT_PART :: string where "ENV_KEY_BOOT_PART = ''mender_boot_part''"
definition ENV_KEY_BOOT_PART_HEX :: string where "ENV_KEY_BOOT_PART_HEX = ''mender_boot_part_hex''"
definition ENV_KEY_BOOTCOUNT :: string where "ENV_KEY_BOOTCOUNT = ''bootcount''"
definition ENV_KEY_UPGRADE :: string where "ENV_KEY_UPGRADE = ''upgrade_available''"

lemmas env_defs = ENV_KEY_BOOT_PART_def ENV_KEY_BOOT_PART_HEX_def ENV_KEY_BOOTCOUNT_def
  ENV_KEY_UPGRADE_def

text \<open>The dictionary that \<open>get_inactive_bootpart_info\<close> returns, with its three keys.\<close>

record inactive_info =
  part_number :: "string option"
  part_device :: "string option"
  part_ident :: string

definition get_inactive_bootpart_info :: "'w machine \<Rightarrow> string \<Rightarrow> inactive_info option" where
  "get_inactive_bootpart_info r current =
     (if current = CURRENT_ROOT_A then
        Some \<lparr>part_number = get_root_part_number_b r, part_device = get_root_part_device_b r,
              part_ident = CURRENT_ROOT_B\<rparr>
      else if current = CURRENT_ROOT_B then
        Some \<lparr>part_number = get_root_part_number_a r, part_device = get_root_part_device_a r,
              part_ident = CURRENT_ROOT_A\<rparr>
      else None)"

definition set_mender_bootpart :: "'w os \<Rightarrow> string option \<Rightarrow> 'w machine \<Rightarrow> bool \<times> 'w machine" where
  "set_mender_bootpart os num r =
     (case set_env_variable os ENV_KEY_BOOT_PART (py_str num) r of
        (ok1, r1) \<Rightarrow>
          if \<not> ok1 then (False, r1)
          else (case set_env_variable os ENV_KEY_BOOT_PART_HEX (py_str num) r1 of
                  (ok2, r2) \<Rightarrow> if \<not> ok2 then (False, r2) else (True, r2)))"

section \<open>The script: evaluate, advance, prepare, decide\<close>

text \<open>
  The three statements \<open>fail_reason = ...; logger.info(fail_reason); keep_going = False\<close>
  that follow every failed check.
\<close>

definition record_failure :: "string \<Rightarrow> 'w machine \<Rightarrow> 'w machine" where
  "record_failure reason r =
     r\<lparr>fail_reason := Some reason, trace := trace r @ [Log reason], keep_going := False\<rparr>"

text \<open>
  \<open>if keep_going and not set_env_variable(state, name, value):\<close> followed by the three
  statements: the command is not run at all once \<open>keep_going\<close> is false.
\<close>

definition set_env_or_fail :: "'w os \<Rightarrow> string \<Rightarrow> string \<Rightarrow> string \<Rightarrow> 'w machine \<Rightarrow> 'w machine" where
  "set_env_or_fail os variable_name v reason r =
     (if keep_going r then
        (case set_env_variable os variable_name v r of
           (ok, r') \<Rightarrow> if ok then r' else record_failure reason r')
      else r)"

subsection \<open>First stage: the outcome of the step prepared by the last run\<close>

definition evaluate_test_switch :: "'w machine \<Rightarrow> 'w machine" where
  "evaluate_test_switch r =
     (if get_expected_root r = Some (current_root r) then r
      else record_failure ''switch test failed'' r)"

definition evaluate_test_update :: "'w os \<Rightarrow> 'w machine \<Rightarrow> error + 'w machine" where
  "evaluate_test_update os r =
     (let expected = get_expected_root r;
          r1 = (if expected \<noteq> Some (current_root r)
                then record_failure (''update test did not match expected root: '' @ py_str expected) r
                else r)
      in case assert_env_variable os ENV_KEY_BOOTCOUNT ''1'' r1 of
           Inl e \<Rightarrow> Inl e
         | Inr (ok1, r2) \<Rightarrow>
      (let r3 = (if \<not> ok1 then record_failure (''failed '' @ ENV_KEY_BOOTCOUNT @ '' assertion'') r2 else r2)
       in case assert_env_variable os ENV_KEY_UPGRADE ''1'' r3 of
           Inl e \<Rightarrow> Inl e
         | Inr (ok2, r4) \<Rightarrow>
      (let r5 = (if \<not> ok2 then record_failure (''failed '' @ ENV_KEY_UPGRADE @ '' assertion'') r4 else r4);
           r6 = set_env_or_fail os ENV_KEY_BOOTCOUNT ''0'' (''failed to set '' @ ENV_KEY_BOOTCOUNT) r5;
           r7 = set_env_or_fail os ENV_KEY_UPGRADE ''0'' (''failed to set '' @ ENV_KEY_UPGRADE) r6
       in Inr r7)))"

definition evaluate_test_rollback :: "'w os \<Rightarrow> 'w machine \<Rightarrow> error + 'w machine" where
  "evaluate_test_rollback os r =
     (case assert_env_variable os ENV_KEY_UPGRADE ''0'' r of
        Inl e \<Rightarrow> Inl e
      | Inr (ok, r1) \<Rightarrow>
     (let r2 = (if \<not> ok then record_failure (''failed '' @ ENV_KEY_UPGRADE @ '' assertion'') r1 else r1);
          expected = get_expected_root r2;
          r3 = (if expected \<noteq> Some (current_root r2)
                then record_failure (''rollback test did not match expected root: '' @ py_str expected) r2
                else r2);
          r4 = set_env_or_fail os ENV_KEY_BOOTCOUNT ''0'' (''failed to set '' @ ENV_KEY_BOOTCOUNT) r3;
          r5 = set_env_or_fail os ENV_KEY_UPGRADE ''0'' (''failed to set '' @ ENV_KEY_UPGRADE) r4
      in Inr r5))"

text \<open>The chain \<open>if s == None ... elif s == state.STEP_TEST_SWITCH ...\<close> of the first stage.\<close>

definition evaluate :: "'w os \<Rightarrow> 'w machine \<Rightarrow> error + 'w machine" where
  "evaluate os r =
     (let s = s_step r in
      if s = None then create_initial_state os r
      else if s = Some STEP_TEST_SWITCH then Inr (evaluate_test_switch r)
      else if s = Some STEP_TEST_UPDATE then evaluate_test_update os r
      else if s = Some STEP_TEST_ROLLBACK then evaluate_test_rollback os r
      else Inr r)"

subsection \<open>Second stage: the step advance and the preparation of the new step\<close>

text \<open>\<open>if keep_going: s = state.next_step()\<close>.\<close>

definition advance :: "'w machine \<Rightarrow> error + 'w machine" where
  "advance r =
     (if keep_going r then
        (case next_step r of Inl e \<Rightarrow> Inl e | Inr (s', r') \<Rightarrow> Inr (r'\<lparr>s_step := s'\<rparr>))
      else Inr r)"

text \<open>
  \<open>STEP_INIT\<close>: \<open>uname -a\<close> is run for the log, then \<open>/etc/os-release\<close> is opened outside
  any \<open>try\<close>, so a missing file ends the run with the exception.
\<close>

definition prepare_init :: "'w os \<Rightarrow> 'w machine \<Rightarrow> error + 'w machine" where
  "prepare_init os r =
     (case run_command_get_output os [Some ''uname'', Some ''-a''] r of
        (out, r1) \<Rightarrow> if os_release os (world r1) then Inr r1 else Inl OSError)"

text \<open>
  The inner \<open>if set_mender_bootpart(...): state.set_expected_root(...) else: ...\<close> that the
  switch and the update preparation share.
\<close>

definition select_inactive :: "'w os \<Rightarrow> inactive_info \<Rightarrow> 'w machine \<Rightarrow> 'w machine" where
  "select_inactive os inactive r =
     (case set_mender_bootpart os (part_number inactive) r of
        (ok, r') \<Rightarrow>
          if ok then set_expected_root (Some (part_ident inactive)) r'
          else record_failure (''failed to set boot partition '' @ part_ident inactive) r')"

definition prepare_test_switch :: "'w os \<Rightarrow> 'w machine \<Rightarrow> 'w machine" where
  "prepare_test_switch os r =
     (case get_inactive_bootpart_info r (current_root r) of
        Some inactive \<Rightarrow> select_inactive os inactive r
      | None \<Rightarrow> record_failure ''could not identify partition numbers for switch, aborting'' r)"

text \<open>
  \<open>STEP_TEST_UPDATE\<close>. The two reasons of the first writes are plain strings, not
  f-strings: the braces stay in the text. The \<open>else\<close> belongs to
  \<open>if keep_going and inactive is not None\<close>, so it is also taken when \<open>keep_going\<close> is
  false.
\<close>

definition prepare_test_update :: "'w os \<Rightarrow> 'w machine \<Rightarrow> 'w machine" where
  "prepare_test_update os r =
     (let r1 = set_env_or_fail os ENV_KEY_BOOTCOUNT ''0'' ''failed to set {ENV_KEY_BOOTCOUNT}'' r;
          r2 = set_env_or_fail os ENV_KEY_UPGRADE ''1'' ''failed to set {ENV_KEY_UPGRADE}'' r1
      in case get_inactive_bootpart_info r2 (current_root r2) of
           Some inactive \<Rightarrow>
             if keep_going r2 then select_inactive os inactive r2
             else record_failure ''could not identify partition numbers for update, aborting'' r2
         | None \<Rightarrow> record_failure ''could not identify partition numbers for update, aborting'' r2)"

text \<open>\<open>os.path.join\<close> of a directory and a relative name.\<close>

definition path_join :: "string \<Rightarrow> string \<Rightarrow> string" where
  "path_join a b = (if a = [] then b else if last a = CHR ''/'' then a @ b else a @ ''/'' @ b)"

definition BOOT_DIRECTORY :: string where "BOOT_DIRECTORY = ''boot''"
definition BOOT_DIRECTORY_DEFUNCT :: string where "BOOT_DIRECTORY_DEFUNCT = ''boot-defunct''"

text \<open>Sub-step 2 of the rollback preparation: the mount, which is not guarded.\<close>

definition mount_inactive :: "'w os \<Rightarrow> string \<Rightarrow> inactive_info \<Rightarrow> 'w machine \<Rightarrow> 'w machine" where
  "mount_inactive os tmpdirname inactive r =
     (case run_command os [Some ''mount'', part_device inactive, Some tmpdirname] r of
        (ok, r') \<Rightarrow>
          if ok then r'
          else record_failure (''failed to mount '' @ py_str (part_device inactive) @ '' to ''
                 @ tmpdirname @ '', aborting'') r')"

text \<open>Sub-step 3: \<open>os.rename\<close> of the boot directory, inside \<open>try\<close>, under \<open>if keep_going\<close>.\<close>

definition rename_boot :: "'w os \<Rightarrow> string \<Rightarrow> 'w machine \<Rightarrow> 'w machine" where
  "rename_boot os tmpdirname r =
     (if keep_going r then
        (case rename_dir os (path_join tmpdirname BOOT_DIRECTORY)
                (path_join tmpdirname BOOT_DIRECTORY_DEFUNCT) (world r) of
           (ok, w') \<Rightarrow>
             (let r' = r\<lparr>world := w', trace := trace r @
                        [Rename (path_join tmpdirname BOOT_DIRECTORY)
                                (path_join tmpdirname BOOT_DIRECTORY_DEFUNCT)]\<rparr>
              in if ok then r'
                 else record_failure (''failed to rename '' @ BOOT_DIRECTORY @ '' in '' @ tmpdirname
                        @ '', aborting'') r'))
      else r)"

text \<open>Sub-step 4: \<open>if keep_going and not run_command(["umount", tmpdirname])\<close>.\<close>

definition unmount_inactive :: "'w os \<Rightarrow> string \<Rightarrow> 'w machine \<Rightarrow> 'w machine" where
  "unmount_inactive os tmpdirname r =
     (if keep_going r then
        (case run_command os [Some ''umount'', Some tmpdirname] r of
           (ok, r') \<Rightarrow> if ok then r' else record_failure (''failed to unmount '' @ tmpdirname) r')
      else r)"

text \<open>Sub-step 6: \<open>if keep_going and not set_mender_bootpart(...)\<close>.\<close>

definition select_or_fail :: "'w os \<Rightarrow> inactive_info \<Rightarrow> 'w machine \<Rightarrow> 'w machine" where
  "select_or_fail os inactive r =
     (if keep_going r then
        (case set_mender_bootpart os (part_number inactive) r of
           (ok, r') \<Rightarrow>
             if ok then r'
             else record_failure (''failed to set boot partition '' @ part_ident inactive) r')
      else r)"

text \<open>
  \<open>STEP_TEST_ROLLBACK\<close>. \<open>tmpdirname\<close> is the directory that
  \<open>tempfile.TemporaryDirectory()\<close> created. The \<open>if keep_going and inactive is not None\<close>
  has no \<open>else\<close>.

  At the exit of the \<open>with\<close> block the directory is removed. The removal raises
  \<open>OSError\<close>, outside any \<open>try\<close>, when the partition is still mounted on the directory:
  that is when the mount succeeded (\<open>keep_going\<close> is still true after it) and no unmount
  succeeded (\<open>keep_going\<close> is false after the unmount sub-step, because the rename or the
  unmount failed). When nothing is mounted the directory is empty and the removal
  succeeds.
\<close>

definition prepare_test_rollback :: "'w os \<Rightarrow> string \<Rightarrow> 'w machine \<Rightarrow> error + 'w machine" where
  "prepare_test_rollback os tmpdirname r =
     (case get_inactive_bootpart_info r (current_root r) of
        None \<Rightarrow> Inr r
      | Some inactive \<Rightarrow>
          if \<not> keep_going r then Inr r
          else
            (let r1 = mount_inactive os tmpdirname inactive r;
                 r2 = rename_boot os tmpdirname r1;
                 r3 = unmount_inactive os tmpdirname r2;
                 r4 = set_env_or_fail os ENV_KEY_BOOTCOUNT ''0'' (''failed to set '' @ ENV_KEY_BOOTCOUNT) r3;
                 r5 = set_env_or_fail os ENV_KEY_UPGRADE ''1'' (''failed to set '' @ ENV_KEY_UPGRADE) r4;
                 r6 = select_or_fail os inactive r5;
                 r7 = (if keep_going r6 then set_expected_root (Some (current_root r6)) r6 else r6)
             in if keep_going r1 \<and> \<not> keep_going r3 then Inl OSError else Inr r7))"

text \<open>The chain \<open>if s == state.STEP_INIT ... elif s == state.STEP_END\<close> of the second stage.\<close>

definition prepare :: "'w os \<Rightarrow> string \<Rightarrow> 'w machine \<Rightarrow> error + 'w machine" where
  "prepare os tmpdirname r =
     (let s = s_step r in
      if s = Some STEP_INIT then prepare_init os r
      else if s = Some STEP_TEST_SWITCH then Inr (prepare_test_switch os r)
      else if s = Some STEP_TEST_UPDATE then Inr (prepare_test_update os r)
      else if s = Some STEP_TEST_ROLLBACK then prepare_test_rollback os tmpdirname r
      else if s = Some STEP_END then Inr (r\<lparr>keep_going := False\<rparr>)
      else Inr r)"

subsection \<open>The end of the run\<close>

definition DISABLE_SERVICE :: "string option list" where
  "DISABLE_SERVICE = [Some ''systemctl'', Some ''disable'', Some ''mender-bootloader-validation.service'']"

definition verdict :: "string option \<Rightarrow> string" where
  "verdict reason =
     (case reason of
        None \<Rightarrow> ''BOOTLOADER VALIDATION: SUCCESS''
      | Some x \<Rightarrow> ''BOOTLOADER VALIDATION: FAILURE - '' @ x)"

definition decide :: "'w os \<Rightarrow> 'w machine \<Rightarrow> error + 'w machine" where
  "decide os r =
     (if keep_going r then Inr (reboot os r)
      else
        (case run_command os DISABLE_SERVICE r of
           (ok, r1) \<Rightarrow>
             (case clean r1 of
                Inl e \<Rightarrow> Inl e
              | Inr r2 \<Rightarrow> Inr (r2\<lparr>trace := trace r2 @ [Log (verdict (fail_reason r2))]\<rparr>))))"

subsection \<open>One run of the script\<close>

text \<open>
  The sanity checks of \<open>PersistentState.__init__\<close>, on the configuration \<open>cfg\<close> that the
  two calls of \<open>read_file_int\<close> loaded and on the state file \<open>f\<close> (a state file that
  exists holds a JSON object). Each failed check raises \<open>RuntimeError\<close>, which the module
  catches to call \<open>sys.exit(1)\<close>: the script ends before it runs any command.
\<close>

definition persistent_state_init :: "(string \<times> string) list \<Rightarrow> pdict option \<Rightarrow> error + pdict" where
  "persistent_state_init cfg f =
     (let st = load_state f;
          last_a = (case map_of st ROOTFS_A_KEY of None \<Rightarrow> None | Some v \<Rightarrow> v);
          last_b = (case map_of st ROOTFS_B_KEY of None \<Rightarrow> None | Some v \<Rightarrow> v);
          config_a = map_of cfg ROOTFS_A_KEY;
          config_b = map_of cfg ROOTFS_B_KEY
      in if config_a = None then Inl SystemExit
         else if config_b = None then Inl SystemExit
         else if last_a \<noteq> None \<and> last_a \<noteq> config_a then Inl SystemExit
         else if last_b \<noteq> None \<and> last_b \<noteq> config_b then Inl SystemExit
         else Inr st)"

text \<open>
  The module up to the first stage, once \<open>PersistentState.__init__\<close> has returned: the
  variables are initialised and the mounted root is identified.
\<close>

definition startup :: "'w os \<Rightarrow> (string \<times> string) list \<Rightarrow> pdict option \<Rightarrow> 'w \<Rightarrow> 'w machine" where
  "startup os cfg f w =
     (case identify_mounted_root os
             \<lparr>state = load_state f, state_file = f, config = cfg, world = w, trace = [],
              keep_going = True, fail_reason = None,
              current_root = CURRENT_ROOT_UNDEFINED, s_step = None\<rparr> of
        (root, r) \<Rightarrow> r\<lparr>current_root := root, s_step := get_step r\<rparr>)"

definition run_from :: "'w os \<Rightarrow> string \<Rightarrow> 'w machine \<Rightarrow> error + 'w machine" where
  "run_from os tmpdirname r =
     (case evaluate os r of
        Inl e \<Rightarrow> Inl e
      | Inr r1 \<Rightarrow>
     (case advance r1 of
        Inl e \<Rightarrow> Inl e
      | Inr r2 \<Rightarrow>
     (case prepare os tmpdirname r2 of
        Inl e \<Rightarrow> Inl e
      | Inr r3 \<Rightarrow> decide os r3)))"

definition main :: "'w os \<Rightarrow> string \<Rightarrow> (string \<times> string) list \<Rightarrow> pdict option \<Rightarrow> 'w \<Rightarrow> error + 'w machine" where
  "main os tmpdirname cfg f w =
     (case persistent_state_init cfg f of
        Inl e \<Rightarrow> Inl e
      | Inr st \<Rightarrow> run_from os tmpdirname (startup os cfg f w))"

section \<open>Vocabulary of the properties\<close>

text \<open>The value that one configuration file gives to a key, if the file was read at all.\<close>

definition file_lookup :: "(string \<times> 'v) list option \<Rightarrow> string \<Rightarrow> 'v option" where
  "file_lookup content k = (case content of None \<Rightarrow> None | Some obj \<Rightarrow> map_of (dict_of obj) k)"

text \<open>The enumeration of the steps, in its order.\<close>

definition STEP_ORDER :: "string list" where
  "STEP_ORDER = [STEP_NONE, STEP_INIT, STEP_TEST_SWITCH, STEP_TEST_UPDATE, STEP_TEST_ROLLBACK, STEP_END]"

text \<open>A command succeeded: it completed with return code 0.\<close>

definition succeeded :: "proc_result \<Rightarrow> bool" where
  "succeeded p = (case p of Raised \<Rightarrow> False | Completed rc out \<Rightarrow> rc = 0)"



text \<open>The machine after \<open>subprocess.run(cmd)\<close> left the world \<open>w\<close>.\<close>

definition ran :: "string option list \<Rightarrow> 'w \<Rightarrow> 'w machine \<Rightarrow> 'w machine" where
  "ran cmd w r = r\<lparr>world := w, trace := trace r @ [Exec cmd]\<rparr>"

text \<open>The events that a stretch of the run added to the trace.\<close>

definition issued :: "'w machine \<Rightarrow> 'w machine \<Rightarrow> event list" where
  "issued r r' = drop (length (trace r)) (trace r')"

definition REBOOT :: event where
  "REBOOT = Exec [Some ''reboot'']"

text \<open>
  Two invariants of a run before its end: no reboot has been issued, and \<open>keep_going\<close>
  is true exactly as long as no failure reason is recorded.
\<close>

definition quiet :: "'w machine \<Rightarrow> bool" where
  "quiet r = (REBOOT \<notin> set (trace r))"

definition agree :: "'w machine \<Rightarrow> bool" where
  "agree r = (keep_going r = (fail_reason r = None))"

text \<open>
  What the operations of evaluation and preparation preserve: the two invariants, the
  stored step, the variable \<open>s\<close>, a recorded reason, and \<open>keep_going\<close> once false.
\<close>

definition keeps :: "'w machine \<Rightarrow> 'w machine \<Rightarrow> bool" where
  "keeps r r' =
     ((quiet r \<longrightarrow> quiet r') \<and> (agree r \<longrightarrow> agree r') \<and> get_step r' = get_step r
      \<and> s_step r' = s_step r \<and> (fail_reason r \<noteq> None \<longrightarrow> fail_reason r' \<noteq> None)
      \<and> (keep_going r' \<longrightarrow> keep_going r))"

section \<open>Concrete devices\<close>

text \<open>
  A device whose commands answer from a table, whatever happened before; a command that
  is not in the table raises (the program is not installed). Renaming works and
  \<open>/etc/os-release\<close> is there.
\<close>

definition table_os :: "(string option list \<times> proc_result) list \<Rightarrow> unit os" where
  "table_os tbl =
     \<lparr>proc = (\<lambda>cmd w. (case map_of tbl cmd of None \<Rightarrow> Raised | Some res \<Rightarrow> res, w)),
      rename_dir = (\<lambda>a b w. (True, w)),
      os_release = (\<lambda>w. True)\<rparr>"

text \<open>A machine in the middle of a run: a state dictionary that is also on disk.\<close>

definition machine_of :: "pdict \<Rightarrow> string \<Rightarrow> string option \<Rightarrow> unit machine" where
  "machine_of st root s =
     \<lparr>state = st, state_file = Some st, config = [], world = (), trace = [],
      keep_going = True, fail_reason = None, current_root = root, s_step = s\<rparr>"

text \<open>The state dictionary of a GRUB device with partitions 2 and 3, at a given step.\<close>

definition grub_state :: "string \<Rightarrow> string \<Rightarrow> pdict" where
  "grub_state step expected =
     [(SET_CMD_KEY, Some ''grub-mender-grubenv-set''),
      (PRINT_CMD_KEY, Some ''grub-mender-grubenv-print''),
      (ROOTFS_A_KEY, Some ''/dev/mmcblk0p2''),
      (ROOTFS_B_KEY, Some ''/dev/mmcblk0p3''),
      (PART_NUMBER_A_KEY, Some ''2''),
      (PART_NUMBER_B_KEY, Some ''3''),
      (VALIDATION_STEP_KEY, Some step),
      (EXPECTED_ROOT_KEY, Some expected)]"

definition STAT_ROOT :: "string option list" where
  "STAT_ROOT = [Some ''stat'', Some ''-c'', Some ''%D'', Some ''/'']"

definition STAT_A :: "string option list" where
  "STAT_A = [Some ''stat'', Some ''-c'', Some ''%t%02T'', Some ''/dev/mmcblk0p2'']"

definition STAT_B :: "string option list" where
  "STAT_B = [Some ''stat'', Some ''-c'', Some ''%t%02T'', Some ''/dev/mmcblk0p3'']"

definition PRINT_BOOTCOUNT :: "string option list" where
  "PRINT_BOOTCOUNT = [Some ''grub-mender-grubenv-print'', Some ''bootcount'']"

definition PRINT_UPGRADE :: "string option list" where
  "PRINT_UPGRADE = [Some ''grub-mender-grubenv-print'', Some ''upgrade_available'']"

definition SET_BOOTCOUNT_0 :: "string option list" where
  "SET_BOOTCOUNT_0 = [Some ''grub-mender-grubenv-set'', Some ''bootcount'', Some ''0'']"

definition SET_UPGRADE_0 :: "string option list" where
  "SET_UPGRADE_0 = [Some ''grub-mender-grubenv-set'', Some ''upgrade_available'', Some ''0'']"

definition SET_UPGRADE_1 :: "string option list" where
  "SET_UPGRADE_1 = [Some ''grub-mender-grubenv-set'', Some ''upgrade_available'', Some ''1'']"

lemmas cmd_defs = STAT_ROOT_def STAT_A_def STAT_B_def PRINT_BOOTCOUNT_def PRINT_UPGRADE_def
  SET_BOOTCOUNT_0_def SET_UPGRADE_0_def SET_UPGRADE_1_def DISABLE_SERVICE_def

definition LF :: string where
  "LF = [CHR 0x0A]"







text \<open>
  Devices in the preparation phase, running from partition A: one on which \<open>mount\<close>
  exits with code 32, one on which the set command exits with code 1.
\<close>

definition TMPDIR :: string where
  "TMPDIR = ''/tmp/tmpk3v9x2ab''"

definition MOUNT_B :: "string option list" where
  "MOUNT_B = [Some ''mount'', Some ''/dev/mmcblk0p3'', Some TMPDIR]"

definition os_mount_fails :: "unit os" where
  "os_mount_fails = table_os
     [(MOUNT_B, Completed 32 []),
      (SET_BOOTCOUNT_0, Completed 0 []),
      (SET_UPGRADE_1, Completed 0 [])]"

definition os_umount_fails :: "unit os" where
  "os_umount_fails = table_os
     [(MOUNT_B, Completed 0 []),
      ([Some ''umount'', Some TMPDIR], Completed 32 [])]"

definition os_set_fails :: "unit os" where
  "os_set_fails = table_os
     [(SET_BOOTCOUNT_0, Completed 1 []),
      (SET_UPGRADE_1, Completed 1 [])]"

definition os_upgrade_set_fails :: "unit os" where
  "os_upgrade_set_fails = table_os
     [(SET_BOOTCOUNT_0, Completed 0 []),
      (SET_UPGRADE_1, Completed 1 [])]"

definition prepare_rollback_machine :: "unit machine" where
  "prepare_rollback_machine =
     machine_of (grub_state STEP_TEST_ROLLBACK CURRENT_ROOT_A) CURRENT_ROOT_A (Some STEP_TEST_ROLLBACK)"

definition prepare_update_machine :: "unit machine" where
  "prepare_update_machine =
     machine_of (grub_state STEP_TEST_UPDATE CURRENT_ROOT_B) CURRENT_ROOT_A (Some STEP_TEST_UPDATE)"




definition os_not_switched :: "unit os" where
  "os_not_switched = table_os
     [(STAT_ROOT, Completed 0 (''b302'' @ LF)),
      (STAT_A, Completed 0 (''b302'' @ LF)),
      (STAT_B, Completed 0 (''b303'' @ LF)),
      ([Some ''grub-mender-grubenv-set'', Some ''mender_boot_part'', Some ''3''], Completed 0 []),
      ([Some ''grub-mender-grubenv-set'', Some ''mender_boot_part_hex'', Some ''3''], Completed 0 []),
      (DISABLE_SERVICE, Completed 0 [])]"

section \<open>Configuration merge\<close>

lemma map_of_fold_update:
  "map_of (fold (\<lambda>kv. AList.update (fst kv) (snd kv)) other d) = map_of d ++ map_of (rev other)"
  by (induction other arbitrary: d)
     (auto simp: update_conv' map_add_def fun_eq_iff split: option.splits)

lemma map_of_dict_update:
  "map_of (dict_update d other) k =
     (case map_of (dict_of other) k of Some v \<Rightarrow> Some v | None \<Rightarrow> map_of d k)"
  by (simp add: dict_update_def dict_of_def map_of_fold_update map_add_def split: option.splits)

text \<open>
  Claim C1, as the code has it: the merge of the two configuration files is
  last-read-wins. A key that the second file (\<open>var/lib/mender/mender.conf\<close>) defines
  takes its value from there, also when the first file (\<open>etc/mender/mender.conf\<close>)
  defined it; a key that only the first file defines keeps the first file's value.
\<close>

theorem load_config_last_read_wins:
  "map_of (load_config client_conf device_conf) k =
     (case file_lookup device_conf k of
        Some v \<Rightarrow> Some v
      | None \<Rightarrow> file_lookup client_conf k)"
  by (cases client_conf; cases device_conf)
     (simp_all add: load_config_def read_file_int_def file_lookup_def map_of_dict_update
        split: option.splits)

theorem load_config_last_read_wins_witness:
  "map_of (load_config (Some [(ROOTFS_A_KEY, ''/dev/sda2''), (ROOTFS_B_KEY, ''/dev/sda3'')])
                       (Some [(ROOTFS_B_KEY, ''/dev/sda4'')])) ROOTFS_B_KEY = Some ''/dev/sda4''
   \<and> map_of (load_config (Some [(ROOTFS_A_KEY, ''/dev/sda2''), (ROOTFS_B_KEY, ''/dev/sda3'')])
                       (Some [(ROOTFS_B_KEY, ''/dev/sda4'')])) ROOTFS_A_KEY = Some ''/dev/sda2''"
  using load_config_last_read_wins
          [of "Some [(ROOTFS_A_KEY, ''/dev/sda2''), (ROOTFS_B_KEY, ''/dev/sda3'')]"
              "Some [(ROOTFS_B_KEY, ''/dev/sda4'')]" ROOTFS_B_KEY]
        load_config_last_read_wins
          [of "Some [(ROOTFS_A_KEY, ''/dev/sda2''), (ROOTFS_B_KEY, ''/dev/sda3'')]"
              "Some [(ROOTFS_B_KEY, ''/dev/sda4'')]" ROOTFS_A_KEY]
  by (simp add: file_lookup_def dict_of_def dict_update_def key_defs)

text \<open>
  Claim C1 as stated fails: with \<open>RootfsPartA\<close> set to \<open>/dev/mmcblk0p2\<close> in the first
  file and to \<open>/dev/mmcblk0p3\<close> in the second, the loaded configuration does not keep the
  first value.
\<close>

theorem load_config_first_read_wins_counterexample:
  "map_of (load_config (Some [(ROOTFS_A_KEY, ''/dev/mmcblk0p2'')])
                       (Some [(ROOTFS_A_KEY, ''/dev/mmcblk0p3'')])) ROOTFS_A_KEY
     \<noteq> Some ''/dev/mmcblk0p2''"
  by (simp add: load_config_def read_file_int_def dict_update_def)

section \<open>The state store\<close>

lemma set_state_file: "state_file (set_state key v r) = Some (state (set_state key v r))"
  by (simp add: set_state_def save_state_def)

lemma next_step_cases:
  "next_step r = Inr (s', r') \<Longrightarrow> r' = r \<or> (\<exists>x. r' = set_step x r)"
  by (auto simp: next_step_def Let_def split: if_splits)

text \<open>
  Claim C9: \<open>_set_state\<close> stores the value under the key and writes the whole dictionary
  to the state file, so that the file equals the dictionary when it returns. The same
  holds for \<open>set_expected_root\<close> and for \<open>_set_step\<close>, which go through it, for
  \<open>next_step\<close> whenever it changes anything, and for \<open>create_initial_state\<close>.
\<close>

theorem set_state_writes_whole_record:
  "state_file (set_state key v r) = Some (state (set_state key v r))
   \<and> map_of (state (set_state key v r)) key = Some v
   \<and> state_file (set_expected_root v r) = Some (state (set_expected_root v r))
   \<and> state_file (set_step step r) = Some (state (set_step step r))
   \<and> (\<forall>s' r'. next_step r = Inr (s', r') \<longrightarrow> r' = r \<or> state_file r' = Some (state r'))
   \<and> (\<forall>r'. create_initial_state os r = Inr r' \<longrightarrow> state_file r' = Some (state r'))"
proof (intro conjI allI impI)
  show "state_file (set_state key v r) = Some (state (set_state key v r))"
    by (rule set_state_file)
  show "map_of (state (set_state key v r)) key = Some v"
    by (simp add: set_state_def save_state_def update_conv')
  show "state_file (set_expected_root v r) = Some (state (set_expected_root v r))"
    by (simp add: set_expected_root_def set_state_file)
  show "state_file (set_step step r) = Some (state (set_step step r))"
    by (simp add: set_step_def set_state_file)
next
  fix s' r' assume "next_step r = Inr (s', r')"
  then show "r' = r \<or> state_file r' = Some (state r')"
    using next_step_cases [of r s' r'] by (auto simp: set_step_def set_state_file)
next
  fix r' assume "create_initial_state os r = Inr r'"
  then show "state_file r' = Some (state r')"
    by (auto simp: create_initial_state_def Let_def set_step_def set_state_file
          split: prod.splits option.splits)
qed

lemma grub_step: "get_step (machine_of (grub_state step e) root s) = Some step"
  by (simp add: get_step_def get_state_def machine_of_def grub_state_def key_defs)

text \<open>
  Claim C9 at a concrete machine: from step \<open>init\<close>, \<open>next_step\<close> changes the dictionary
  and the file holds the new dictionary when it returns.
\<close>

theorem set_state_writes_whole_record_witness:
  "next_step (machine_of (grub_state STEP_INIT ''root_b'') ''root_a'' (Some STEP_INIT))
     = Inr (Some STEP_TEST_SWITCH,
            set_step STEP_TEST_SWITCH (machine_of (grub_state STEP_INIT ''root_b'') ''root_a'' (Some STEP_INIT)))
   \<and> state_file (set_step STEP_TEST_SWITCH (machine_of (grub_state STEP_INIT ''root_b'') ''root_a'' (Some STEP_INIT)))
     = Some (state (set_step STEP_TEST_SWITCH (machine_of (grub_state STEP_INIT ''root_b'') ''root_a'' (Some STEP_INIT))))"
proof -
  let ?m = "machine_of (grub_state STEP_INIT ''root_b'') ''root_a'' (Some STEP_INIT)"
  have ns: "next_step ?m = Inr (Some STEP_TEST_SWITCH, set_step STEP_TEST_SWITCH ?m)"
    by (simp add: next_step_def Let_def grub_step step_defs)
       (simp add: get_step_def get_state_def set_step_def set_state_def save_state_def
          machine_of_def grub_state_def key_defs)
  have ne: "set_step STEP_TEST_SWITCH ?m \<noteq> ?m"
  proof
    assume "set_step STEP_TEST_SWITCH ?m = ?m"
    then have "state (set_step STEP_TEST_SWITCH ?m) = state ?m" by simp
    then show False
      by (simp add: set_step_def set_state_def save_state_def machine_of_def grub_state_def
            key_defs step_defs)
  qed
  from set_state_writes_whole_record [where r = ?m] ns ne
  show ?thesis by blast
qed

lemma get_step_set_step: "get_step (set_step x r) = Some x"
  by (simp add: get_step_def get_state_def set_step_def set_state_def save_state_def update_conv')

section \<open>Step order\<close>

text \<open>
  Claim C5: from each step but the last, \<open>next_step\<close> stores and returns the step that
  follows it in the order \<open>none, init, test_switch, test_update, test_rollback, end\<close>;
  from \<open>end\<close> it changes nothing and returns \<open>end\<close>; from any other value, a missing
  step included, it raises.
\<close>

theorem next_step_follows_order:
  "(\<forall>i<5. get_step r = Some (STEP_ORDER ! i) \<longrightarrow>
       next_step r = Inr (Some (STEP_ORDER ! Suc i), set_step (STEP_ORDER ! Suc i) r)
       \<and> get_step (set_step (STEP_ORDER ! Suc i) r) = Some (STEP_ORDER ! Suc i))
   \<and> (get_step r = Some STEP_END \<longrightarrow> next_step r = Inr (Some STEP_END, r))
   \<and> (get_step r \<notin> Some ` set STEP_ORDER \<longrightarrow> next_step r = Inl UnknownStep)"
proof (intro conjI allI impI)
  fix i :: nat assume "i < 5" and s: "get_step r = Some (STEP_ORDER ! i)"
  then have "i = 0 \<or> i = 1 \<or> i = 2 \<or> i = 3 \<or> i = 4" by arith
  then show "next_step r = Inr (Some (STEP_ORDER ! Suc i), set_step (STEP_ORDER ! Suc i) r)"
    using s by (auto simp: next_step_def Let_def STEP_ORDER_def get_step_set_step step_defs)
  show "get_step (set_step (STEP_ORDER ! Suc i) r) = Some (STEP_ORDER ! Suc i)"
    by (rule get_step_set_step)
next
  assume "get_step r = Some STEP_END"
  then show "next_step r = Inr (Some STEP_END, r)"
    by (simp add: next_step_def Let_def step_defs)
next
  assume "get_step r \<notin> Some ` set STEP_ORDER"
  then show "next_step r = Inl UnknownStep"
    by (auto simp: next_step_def Let_def STEP_ORDER_def)
qed

theorem next_step_follows_order_witness:
  "next_step (machine_of (grub_state STEP_TEST_SWITCH ''root_b'') ''root_b'' None)
     = Inr (Some STEP_TEST_UPDATE,
            set_step STEP_TEST_UPDATE (machine_of (grub_state STEP_TEST_SWITCH ''root_b'') ''root_b'' None))
   \<and> next_step (machine_of (grub_state STEP_END ''root_b'') ''root_b'' None)
     = Inr (Some STEP_END, machine_of (grub_state STEP_END ''root_b'') ''root_b'' None)
   \<and> next_step (machine_of (grub_state ''test_done'' ''root_b'') ''root_b'' None) = Inl UnknownStep"
proof (intro conjI)
  let ?m = "machine_of (grub_state STEP_TEST_SWITCH ''root_b'') ''root_b'' None"
  have a: "(2::nat) < 5" by simp
  have b: "get_step ?m = Some (STEP_ORDER ! 2)"
    by (simp add: grub_step STEP_ORDER_def)
  have d: "STEP_ORDER ! Suc 2 = STEP_TEST_UPDATE" by (simp add: STEP_ORDER_def)
  from next_step_follows_order [of ?m] a b
  have "next_step ?m = Inr (Some (STEP_ORDER ! Suc 2), set_step (STEP_ORDER ! Suc 2) ?m)"
    by blast
  then show "next_step ?m = Inr (Some STEP_TEST_UPDATE, set_step STEP_TEST_UPDATE ?m)"
    by (simp only: d)
next
  let ?m = "machine_of (grub_state STEP_END ''root_b'') ''root_b'' None"
  have "get_step ?m = Some STEP_END" by (rule grub_step)
  with next_step_follows_order [of ?m]
  show "next_step ?m = Inr (Some STEP_END, ?m)" by blast
next
  let ?m = "machine_of (grub_state ''test_done'' ''root_b'') ''root_b'' None"
  have "get_step ?m \<notin> Some ` set STEP_ORDER"
    by (simp add: grub_step STEP_ORDER_def step_defs)
  with next_step_follows_order [of ?m]
  show "next_step ?m = Inl UnknownStep" by blast
qed

section \<open>Commands in terms of the device's answers\<close>

lemma run_command_eq:
  "run_command os cmd r =
     (succeeded (fst (proc os cmd (world r))),
      r\<lparr>world := snd (proc os cmd (world r)), trace := trace r @ [Exec cmd]\<rparr>)"
  by (simp add: run_command_def subprocess_run_def succeeded_def
        split: proc_result.splits prod.splits)

lemma set_env_variable_eq:
  "set_env_variable os name v r =
     (succeeded (fst (proc os [get_env_set_cmd r, Some name, Some v] (world r))),
      r\<lparr>world := snd (proc os [get_env_set_cmd r, Some name, Some v] (world r)),
        trace := trace r @ [Exec [get_env_set_cmd r, Some name, Some v]]\<rparr>)"
  by (simp add: set_env_variable_def run_command_eq)


lemma table_proc:
  "proc (table_os tbl) cmd w = (case map_of tbl cmd of None \<Rightarrow> Raised | Some res \<Rightarrow> res, w)"
  by (simp add: table_os_def)

section \<open>Identification of the mounted root\<close>

lemma identify_mounted_root_result:
  assumes "run_command_get_output os [Some ''stat'', Some ''-c'', Some ''%D'', Some root_path] r
             = (root, r1)"
      and "run_command_get_output os
             [Some ''stat'', Some ''-c'', Some ''%t%02T'', get_root_part_device_a r1] r1 = (a, r2)"
      and "run_command_get_output os
             [Some ''stat'', Some ''-c'', Some ''%t%02T'', get_root_part_device_b r2] r2 = (b, r3)"
  shows "identify_mounted_root os r =
           (if root = a then CURRENT_ROOT_A else if root = b then CURRENT_ROOT_B
            else CURRENT_ROOT_UNDEFINED, r3)"
  using assms by (simp add: identify_mounted_root_def)

text \<open>
  Claim C2 fails on the code. On a device where \<open>stat\<close> cannot be run, the probe of the
  root mount and the probe of partition A both give \<open>None\<close>; the comparison
  \<open>root == a\<close> is then \<open>None == None\<close>, and \<open>identify_mounted_root\<close> answers
  \<open>root_a\<close> instead of \<open>root_undefined\<close>.
\<close>

theorem identify_mounted_root_failed_probes:
  "fst (run_command_get_output (table_os []) STAT_ROOT
          (machine_of (grub_state STEP_TEST_SWITCH CURRENT_ROOT_B) CURRENT_ROOT_UNDEFINED None))
     = None
   \<and> fst (run_command_get_output (table_os []) STAT_A
          (machine_of (grub_state STEP_TEST_SWITCH CURRENT_ROOT_B) CURRENT_ROOT_UNDEFINED None))
     = None
   \<and> fst (identify_mounted_root (table_os [])
          (machine_of (grub_state STEP_TEST_SWITCH CURRENT_ROOT_B) CURRENT_ROOT_UNDEFINED None))
     = CURRENT_ROOT_A"
  by (simp add: identify_mounted_root_def run_command_get_output_def subprocess_run_def table_proc)

section \<open>Reading a bootloader variable\<close>

text \<open>
  Claim C3 fails on the code. When the print command succeeds and its output has no
  line for the variable (here the output is empty), \<open>vdict[variable_name]\<close> raises
  \<open>KeyError\<close>: \<open>assert_env_variable\<close> does not return \<open>False\<close>.
\<close>

theorem assert_env_variable_absent_raises:
  "assert_env_variable (table_os [(PRINT_BOOTCOUNT, Completed 0 [])]) ENV_KEY_BOOTCOUNT ''1''
     (machine_of (grub_state STEP_TEST_UPDATE CURRENT_ROOT_B) CURRENT_ROOT_B (Some STEP_TEST_UPDATE))
   = Inl KeyError"
  by (simp add: assert_env_variable_def run_command_get_output_def subprocess_run_def table_proc
        get_env_print_cmd_def get_state_def machine_of_def grub_state_def key_defs cmd_defs env_defs
        strip_def lstrip_def rstrip_def findall_env_def dict_of_def dict_update_def)

section \<open>Machines after a command or a recorded failure\<close>

lemma ran_fields [simp]:
  "world (ran cmd w r) = w"
  "trace (ran cmd w r) = trace r @ [Exec cmd]"
  "state (ran cmd w r) = state r"
  "state_file (ran cmd w r) = state_file r"
  "keep_going (ran cmd w r) = keep_going r"
  "fail_reason (ran cmd w r) = fail_reason r"
  "current_root (ran cmd w r) = current_root r"
  "s_step (ran cmd w r) = s_step r"
  "config (ran cmd w r) = config r"
  by (simp_all add: ran_def)

lemma record_failure_fields [simp]:
  "world (record_failure x r) = world r"
  "trace (record_failure x r) = trace r @ [Log x]"
  "state (record_failure x r) = state r"
  "state_file (record_failure x r) = state_file r"
  "keep_going (record_failure x r) = False"
  "fail_reason (record_failure x r) = Some x"
  "current_root (record_failure x r) = current_root r"
  "s_step (record_failure x r) = s_step r"
  "config (record_failure x r) = config r"
  by (simp_all add: record_failure_def)

lemmas getter_defs = get_env_set_cmd_def get_env_print_cmd_def get_expected_root_def
  get_root_part_device_a_def get_root_part_device_b_def get_root_part_number_a_def
  get_root_part_number_b_def get_step_def

lemma getters_ran [simp]:
  "get_state k (ran cmd w r) = get_state k r"
  "get_env_set_cmd (ran cmd w r) = get_env_set_cmd r"
  "get_env_print_cmd (ran cmd w r) = get_env_print_cmd r"
  "get_expected_root (ran cmd w r) = get_expected_root r"
  "get_step (ran cmd w r) = get_step r"
  "get_inactive_bootpart_info (ran cmd w r) c = get_inactive_bootpart_info r c"
  by (simp_all add: getter_defs get_state_def get_inactive_bootpart_info_def)

lemma getters_record_failure [simp]:
  "get_state k (record_failure x r) = get_state k r"
  "get_env_set_cmd (record_failure x r) = get_env_set_cmd r"
  "get_env_print_cmd (record_failure x r) = get_env_print_cmd r"
  "get_expected_root (record_failure x r) = get_expected_root r"
  "get_step (record_failure x r) = get_step r"
  "get_inactive_bootpart_info (record_failure x r) c = get_inactive_bootpart_info r c"
  by (simp_all add: getter_defs get_state_def get_inactive_bootpart_info_def)

lemma run_command_ran:
  "run_command os cmd r =
     (succeeded (fst (proc os cmd (world r))), ran cmd (snd (proc os cmd (world r))) r)"
  by (simp add: run_command_eq ran_def)

lemma set_env_variable_ran:
  "set_env_variable os name v r =
     (succeeded (fst (proc os [get_env_set_cmd r, Some name, Some v] (world r))),
      ran [get_env_set_cmd r, Some name, Some v]
          (snd (proc os [get_env_set_cmd r, Some name, Some v] (world r))) r)"
  by (simp add: set_env_variable_eq ran_def)


lemma set_env_or_fail_ran:
  "set_env_or_fail os name v reason r =
     (if keep_going r then
        (if succeeded (fst (proc os [get_env_set_cmd r, Some name, Some v] (world r)))
         then ran [get_env_set_cmd r, Some name, Some v]
                  (snd (proc os [get_env_set_cmd r, Some name, Some v] (world r))) r
         else record_failure reason
                (ran [get_env_set_cmd r, Some name, Some v]
                     (snd (proc os [get_env_set_cmd r, Some name, Some v] (world r))) r))
      else r)"
  by (simp add: set_env_or_fail_def set_env_variable_ran)

lemma issued_append [simp]: "trace r' = trace r @ xs \<Longrightarrow> issued r r' = xs"
  by (simp add: issued_def)


section \<open>Evaluation of the update test\<close>








section \<open>Evaluation of the rollback test\<close>






section \<open>Preparation of the rollback test\<close>

text \<open>
  Claim C8: when the rollback preparation reaches the mount of the inactive partition
  and the mount fails, the preparation issues nothing after it (no rename, no unmount,
  no write of a bootloader variable, no selection of the boot partition), leaves the
  state dictionary and the state file as they were (so no expected root is recorded),
  and the recorded reason is \<open>failed to mount <device> to <directory>, aborting\<close>.
\<close>

theorem prepare_rollback_mount_failure:
  assumes s: "s_step r = Some STEP_TEST_ROLLBACK"
      and k: "keep_going r"
      and i: "get_inactive_bootpart_info r (current_root r) = Some inactive"
      and m: "proc os [Some ''mount'', part_device inactive, Some tmpdirname] (world r) = (p, w')"
      and f: "\<not> succeeded p"
  shows "\<exists>r'. prepare os tmpdirname r = Inr r'
           \<and> issued r r' =
               [Exec [Some ''mount'', part_device inactive, Some tmpdirname],
                Log (''failed to mount '' @ py_str (part_device inactive) @ '' to '' @ tmpdirname
                     @ '', aborting'')]
           \<and> fail_reason r' =
               Some (''failed to mount '' @ py_str (part_device inactive) @ '' to '' @ tmpdirname
                     @ '', aborting'')
           \<and> \<not> keep_going r'
           \<and> state r' = state r \<and> state_file r' = state_file r \<and> world r' = w'"
  using assms
  by (simp add: prepare_def step_defs prepare_test_rollback_def Let_def mount_inactive_def
        run_command_ran rename_boot_def unmount_inactive_def set_env_or_fail_def select_or_fail_def)

theorem prepare_rollback_mount_failure_witness:
  "\<exists>r'. prepare os_mount_fails TMPDIR prepare_rollback_machine = Inr r'
       \<and> issued prepare_rollback_machine r' =
           [Exec MOUNT_B, Log ''failed to mount /dev/mmcblk0p3 to /tmp/tmpk3v9x2ab, aborting'']
       \<and> fail_reason r' = Some ''failed to mount /dev/mmcblk0p3 to /tmp/tmpk3v9x2ab, aborting''
       \<and> state r' = state prepare_rollback_machine"
proof -
  have s: "s_step prepare_rollback_machine = Some STEP_TEST_ROLLBACK"
   and k: "keep_going prepare_rollback_machine"
    by code_simp+
  have i: "get_inactive_bootpart_info prepare_rollback_machine (current_root prepare_rollback_machine)
             = Some \<lparr>part_number = Some ''3'', part_device = Some ''/dev/mmcblk0p3'',
                     part_ident = CURRENT_ROOT_B\<rparr>"
    by (simp add: get_inactive_bootpart_info_def prepare_rollback_machine_def machine_of_def
          grub_state_def getter_defs get_state_def key_defs root_defs)
  have m: "proc os_mount_fails
             [Some ''mount'',
              part_device \<lparr>part_number = Some ''3'', part_device = Some ''/dev/mmcblk0p3'',
                           part_ident = CURRENT_ROOT_B\<rparr>, Some TMPDIR]
             (world prepare_rollback_machine) = (Completed 32 [], ())"
    by (simp add: os_mount_fails_def table_proc MOUNT_B_def)
  have f: "\<not> succeeded (Completed 32 [])"
    by (simp add: succeeded_def)
  from prepare_rollback_mount_failure [OF s k i m f]
  show ?thesis by (auto simp: MOUNT_B_def TMPDIR_def py_str_def)
qed

text \<open>
  After a successful mount and a failed unmount the partition is still mounted when the
  \<open>with\<close> block ends: the removal of the directory raises and the run ends there.
\<close>

lemma prepare_rollback_still_mounted_raises:
  "prepare os_umount_fails TMPDIR prepare_rollback_machine = Inl OSError"
  by code_simp

section \<open>Preparation of the update test\<close>

text \<open>
  Claim C10: when, in the preparation of the update test, the write of \<open>bootcount\<close> or
  the write of \<open>upgrade_available\<close> fails, the run first logs the reason with its
  braces uninterpolated, \<open>failed to set {ENV_KEY_BOOTCOUNT}\<close> or
  \<open>failed to set {ENV_KEY_UPGRADE}\<close>, and then takes the \<open>else\<close> branch, which
  replaces it: the reason at the end is
  \<open>could not identify partition numbers for update, aborting\<close>, whatever the inactive
  partition is, and names no write.
\<close>

theorem prepare_update_write_failure:
  assumes s: "s_step r = Some STEP_TEST_UPDATE"
      and k: "keep_going r"
      and p1: "proc os [get_env_set_cmd r, Some ENV_KEY_BOOTCOUNT, Some ''0''] (world r) = (p1, w1)"
      and p2: "proc os [get_env_set_cmd r, Some ENV_KEY_UPGRADE, Some ''1''] w1 = (p2, w2)"
      and f: "\<not> (succeeded p1 \<and> succeeded p2)"
  shows "\<exists>r'. prepare os tmpdirname r = Inr r'
           \<and> issued r r' =
               (if \<not> succeeded p1 then
                  [Exec [get_env_set_cmd r, Some ENV_KEY_BOOTCOUNT, Some ''0''],
                   Log ''failed to set {ENV_KEY_BOOTCOUNT}'',
                   Log ''could not identify partition numbers for update, aborting'']
                else
                  [Exec [get_env_set_cmd r, Some ENV_KEY_BOOTCOUNT, Some ''0''],
                   Exec [get_env_set_cmd r, Some ENV_KEY_UPGRADE, Some ''1''],
                   Log ''failed to set {ENV_KEY_UPGRADE}'',
                   Log ''could not identify partition numbers for update, aborting''])
           \<and> fail_reason r' = Some ''could not identify partition numbers for update, aborting''
           \<and> \<not> keep_going r'
           \<and> state r' = state r \<and> state_file r' = state_file r"
  using assms
  by (cases "succeeded p1")
     (simp_all add: prepare_def step_defs prepare_test_update_def Let_def set_env_or_fail_ran
        split: option.splits)

theorem prepare_update_write_failure_witness:
  "(\<exists>r'. prepare os_set_fails TMPDIR prepare_update_machine = Inr r'
       \<and> issued prepare_update_machine r' =
           [Exec SET_BOOTCOUNT_0, Log ''failed to set {ENV_KEY_BOOTCOUNT}'',
            Log ''could not identify partition numbers for update, aborting'']
       \<and> fail_reason r' = Some ''could not identify partition numbers for update, aborting'')
   \<and> (\<exists>r'. prepare os_upgrade_set_fails TMPDIR prepare_update_machine = Inr r'
       \<and> issued prepare_update_machine r' =
           [Exec SET_BOOTCOUNT_0, Exec SET_UPGRADE_1, Log ''failed to set {ENV_KEY_UPGRADE}'',
            Log ''could not identify partition numbers for update, aborting'']
       \<and> fail_reason r' = Some ''could not identify partition numbers for update, aborting'')"
proof -
  have s: "s_step prepare_update_machine = Some STEP_TEST_UPDATE"
   and k: "keep_going prepare_update_machine"
   and g: "get_env_set_cmd prepare_update_machine = Some ''grub-mender-grubenv-set''"
    by code_simp+
  have a1: "proc os_set_fails [get_env_set_cmd prepare_update_machine, Some ENV_KEY_BOOTCOUNT, Some ''0'']
              (world prepare_update_machine) = (Completed 1 [], ())"
   and a2: "proc os_set_fails [get_env_set_cmd prepare_update_machine, Some ENV_KEY_UPGRADE, Some ''1'']
              () = (Completed 1 [], ())"
    by (simp_all add: g os_set_fails_def table_proc cmd_defs env_defs)
  have b1: "proc os_upgrade_set_fails
              [get_env_set_cmd prepare_update_machine, Some ENV_KEY_BOOTCOUNT, Some ''0'']
              (world prepare_update_machine) = (Completed 0 [], ())"
   and b2: "proc os_upgrade_set_fails
              [get_env_set_cmd prepare_update_machine, Some ENV_KEY_UPGRADE, Some ''1'']
              () = (Completed 1 [], ())"
    by (simp_all add: g os_upgrade_set_fails_def table_proc cmd_defs env_defs)
  have fa: "\<not> (succeeded (Completed 1 []) \<and> succeeded (Completed 1 []))"
   and fb: "\<not> (succeeded (Completed 0 []) \<and> succeeded (Completed 1 []))"
   and sc: "succeeded (Completed 0 [])" "\<not> succeeded (Completed 1 [])"
    by (simp_all add: succeeded_def)
  from prepare_update_write_failure [OF s k a1 a2 fa, of TMPDIR]
       prepare_update_write_failure [OF s k b1 b2 fb, of TMPDIR] sc g
  show ?thesis by (auto simp: cmd_defs env_defs)
qed

section \<open>The end of a run that failed\<close>

lemma quiet_simps [simp]:
  "quiet (ran cmd w r) = (cmd \<noteq> [Some ''reboot''] \<and> quiet r)"
  "quiet (record_failure x r) = quiet r"
  "quiet (set_state k v r) = quiet r"
  "quiet (r\<lparr>s_step := s\<rparr>) = quiet r"
  "quiet (r\<lparr>keep_going := b\<rparr>) = quiet r"
  by (auto simp: quiet_def REBOOT_def set_state_def save_state_def)

lemma agree_simps [simp]:
  "agree (ran cmd w r) = agree r"
  "agree (record_failure x r)"
  "agree (set_state k v r) = agree r"
  "agree (r\<lparr>s_step := s\<rparr>) = agree r"
  by (simp_all add: agree_def set_state_def save_state_def)

lemma set_state_fields [simp]:
  "keep_going (set_state k v r) = keep_going r"
  "fail_reason (set_state k v r) = fail_reason r"
  "trace (set_state k v r) = trace r"
  "world (set_state k v r) = world r"
  "s_step (set_state k v r) = s_step r"
  "current_root (set_state k v r) = current_root r"
  "config (set_state k v r) = config r"
  by (simp_all add: set_state_def save_state_def)

lemma get_state_set_state [simp]:
  "get_state k (set_state k' v r) = (if k = k' then v else get_state k r)"
  by (simp add: get_state_def set_state_def save_state_def update_conv')

lemma get_step_set_expected_root [simp]:
  "get_step (set_expected_root v r) = get_step r"
  by (simp add: get_step_def set_expected_root_def key_defs)

lemma set_expected_root_simps [simp]:
  "quiet (set_expected_root v r) = quiet r"
  "agree (set_expected_root v r) = agree r"
  "keep_going (set_expected_root v r) = keep_going r"
  "fail_reason (set_expected_root v r) = fail_reason r"
  "s_step (set_expected_root v r) = s_step r"
  by (simp_all add: set_expected_root_def)

lemma set_step_simps [simp]:
  "quiet (set_step x r) = quiet r"
  "agree (set_step x r) = agree r"
  "keep_going (set_step x r) = keep_going r"
  "fail_reason (set_step x r) = fail_reason r"
  "s_step (set_step x r) = s_step r"
  by (simp_all add: set_step_def)

lemma get_step_keep_going [simp]:
  "get_step (r\<lparr>keep_going := b\<rparr>) = get_step r"
  "get_step (r\<lparr>s_step := s\<rparr>) = get_step r"
  by (simp_all add: get_step_def get_state_def)

lemma keeps_refl [simp]: "keeps r r"
  by (simp add: keeps_def)


lemma keeps_ran [simp]: "cmd \<noteq> [Some ''reboot''] \<Longrightarrow> keeps r (ran cmd w r)"
  by (simp add: keeps_def)

lemma keeps_record_failure [simp]: "keeps r (record_failure x r)"
  by (simp add: keeps_def)

lemma keeps_set_expected_root [simp]: "keeps r (set_expected_root v r)"
  by (simp add: keeps_def)


lemma set_mender_bootpart_keeps:
  "set_mender_bootpart os num r = (ok, r') \<Longrightarrow> keeps r r'"
  by (auto simp: set_mender_bootpart_def set_env_variable_ran keeps_def split: if_splits)

lemma keeps_select_inactive [simp]: "keeps r (select_inactive os inactive r)"
proof -
  obtain ok r' where e: "set_mender_bootpart os (part_number inactive) r = (ok, r')"
    by (cases "set_mender_bootpart os (part_number inactive) r")
  have k: "keeps r r'" by (rule set_mender_bootpart_keeps [OF e])
  show ?thesis
    using k by (cases ok) (auto simp: select_inactive_def e keeps_def)
qed

lemma keeps_select_or_fail [simp]: "keeps r (select_or_fail os inactive r)"
proof -
  obtain ok r' where e: "set_mender_bootpart os (part_number inactive) r = (ok, r')"
    by (cases "set_mender_bootpart os (part_number inactive) r")
  have k: "keeps r r'" by (rule set_mender_bootpart_keeps [OF e])
  show ?thesis
    using k by (cases ok) (auto simp: select_or_fail_def e keeps_def)
qed

lemma keeps_mount_inactive [simp]: "keeps r (mount_inactive os tmpdirname inactive r)"
  by (simp add: mount_inactive_def run_command_ran keeps_def)

lemma keeps_unmount_inactive [simp]: "keeps r (unmount_inactive os tmpdirname r)"
  by (simp add: unmount_inactive_def run_command_ran keeps_def)

lemma keeps_rename_boot [simp]: "keeps r (rename_boot os tmpdirname r)"
  by (auto simp: rename_boot_def Let_def keeps_def quiet_def agree_def REBOOT_def get_step_def
        get_state_def record_failure_def split: prod.splits)



lemma keeps_fail_if [simp]: "keeps r (if c then record_failure x r else r)"
  by simp



















text \<open>
  A configuration that disagrees with the recorded partition A, or that lacks partition
  B, ends the script in \<open>PersistentState.__init__\<close>, before any command.
\<close>

lemma main_exits_on_inconsistent_config:
  "main os_not_switched TMPDIR
     [(ROOTFS_A_KEY, ''/dev/mmcblk0p3''), (ROOTFS_B_KEY, ''/dev/mmcblk0p2'')]
     (Some (grub_state STEP_TEST_SWITCH CURRENT_ROOT_B)) () = Inl SystemExit
   \<and> main os_not_switched TMPDIR [(ROOTFS_A_KEY, ''/dev/mmcblk0p2'')] None () = Inl SystemExit"
  by code_simp





end
